theory Spec2Isabelle
  imports Main "HOL-Library.Sublist"
begin

section \<open>Go library functions used by the handlers\<close>

subsection \<open>strings\<close>

text \<open>\<open>strings.Contains(s, substr)\<close>: \<open>substr\<close> occurs in \<open>s\<close> as a contiguous run.\<close>

definition Contains :: "string \<Rightarrow> string \<Rightarrow> bool" where
  "Contains s substr = sublist substr s"

text \<open>\<open>strings.Split(s, sep)\<close> for a separator of one byte.\<close>

fun split_on :: "char \<Rightarrow> string \<Rightarrow> string list" where
  "split_on sep [] = [[]]"
| "split_on sep (c # cs) =
     (if c = sep then [] # split_on sep cs
      else (case split_on sep cs of [] \<Rightarrow> [[c]] | l # ls \<Rightarrow> (c # l) # ls))"

text \<open>\<open>strings.Join(elems, sep)\<close>.\<close>

fun strings_Join :: "string list \<Rightarrow> string \<Rightarrow> string" where
  "strings_Join [] sep = []"
| "strings_Join [x] sep = x"
| "strings_Join (x # y # ys) sep = x @ sep @ strings_Join (y # ys) sep"

subsection \<open>path/filepath\<close>

text \<open>
  \<open>filepath.Clean\<close> on a system whose separator is \<open>/\<close>. The elements of the path are
  read from the left onto a stack: an empty element and \<open>.\<close> are dropped, \<open>..\<close> takes
  the element before it away, is dropped at the root, and is kept in front of a path
  that is not rooted. The empty result is \<open>.\<close>.
\<close>

fun clean_elems :: "bool \<Rightarrow> string list \<Rightarrow> string list \<Rightarrow> string list" where
  "clean_elems rooted acc [] = rev acc"
| "clean_elems rooted acc (c # cs) =
     (if c = [] \<or> c = ''.'' then clean_elems rooted acc cs
      else if c = ''..'' then
        (case acc of
           [] \<Rightarrow> clean_elems rooted (if rooted then [] else [''..'']) cs
         | a # as \<Rightarrow> clean_elems rooted (if a = ''..'' then c # acc else as) cs)
      else clean_elems rooted (c # acc) cs)"

definition filepath_Clean :: "string \<Rightarrow> string" where
  "filepath_Clean path =
     (if path = [] then ''.''
      else
        (let rooted = (take 1 path = ''/'');
             out = strings_Join (clean_elems rooted [] (split_on CHR ''/'' path)) ''/''
         in if rooted then CHR ''/'' # out else if out = [] then ''.'' else out))"

text \<open>
  \<open>filepath.Join\<close> of two elements: the elements from the first one that is not empty,
  joined with \<open>/\<close> and cleaned; the empty string when both are empty.
\<close>

definition filepath_Join :: "string \<Rightarrow> string \<Rightarrow> string" where
  "filepath_Join dir name =
     (if dir \<noteq> [] then filepath_Clean (dir @ ''/'' @ name)
      else if name \<noteq> [] then filepath_Clean name
      else [])"

subsection \<open>strconv and the \<open>%d\<close> verb\<close>

datatype NumError = ErrSyntax | ErrRange

definition is_digit :: "char \<Rightarrow> bool" where
  "is_digit c = (48 \<le> (of_char c :: nat) \<and> (of_char c :: nat) \<le> 57)"

definition digit_val :: "char \<Rightarrow> nat" where
  "digit_val c = of_char c - 48"

definition maxUint64 :: nat where
  "maxUint64 = 18446744073709551615"

text \<open>
  The digit loop of \<open>strconv.ParseUint(s, 10, 64)\<close>: the first character that is not a
  decimal digit is a syntax error, the first step that leaves 64 bits is a range error.
\<close>

fun parse_digits :: "nat \<Rightarrow> string \<Rightarrow> NumError + nat" where
  "parse_digits n [] = Inr n"
| "parse_digits n (c # cs) =
     (if \<not> is_digit c then Inl ErrSyntax
      else if n * 10 + digit_val c > maxUint64 then Inl ErrRange
      else parse_digits (n * 10 + digit_val c) cs)"

definition ParseUint :: "string \<Rightarrow> NumError + nat" where
  "ParseUint s = (if s = [] then Inl ErrSyntax else parse_digits 0 s)"

text \<open>
  \<open>strconv.ParseInt(s, 10, 0)\<close> where \<open>int\<close> has 64 bits: an optional sign, then
  \<open>ParseUint\<close>, then the bound of the signed type.
\<close>

definition signed_bound :: "bool \<Rightarrow> nat \<Rightarrow> NumError + int" where
  "signed_bound neg un =
     (if \<not> neg \<and> un \<ge> 9223372036854775808 then Inl ErrRange
      else if neg \<and> un > 9223372036854775808 then Inl ErrRange
      else Inr (if neg then - int un else int un))"

fun ParseInt :: "string \<Rightarrow> NumError + int" where
  "ParseInt [] = Inl ErrSyntax"
| "ParseInt (c # cs) =
     (let neg = (c = CHR ''-'');
          s = (if c = CHR ''+'' \<or> c = CHR ''-'' then cs else c # cs)
      in case ParseUint s of
           Inl ErrSyntax \<Rightarrow> Inl ErrSyntax
         | Inl ErrRange \<Rightarrow> Inl ErrRange
         | Inr un \<Rightarrow> signed_bound neg un)"

text \<open>
  \<open>strconv.Atoi\<close>: its fast path for short strings computes what \<open>ParseInt\<close> computes,
  so one definition stands for both.
\<close>

definition Atoi :: "string \<Rightarrow> NumError + int" where
  "Atoi s = ParseInt s"

text \<open>The decimal rendering of \<open>fmt.Sprintf("%d", n)\<close> and of \<open>strconv.Itoa\<close>.\<close>

function FormatUint :: "nat \<Rightarrow> string" where
  "FormatUint n =
     (if n < 10 then [''0123456789'' ! n]
      else FormatUint (n div 10) @ [''0123456789'' ! (n mod 10)])"
  by pat_completeness auto
termination
  by (relation "measure (\<lambda>n. n)") auto

declare FormatUint.simps [simp del]

definition Itoa :: "int \<Rightarrow> string" where
  "Itoa i = (if i < 0 then CHR ''-'' # FormatUint (nat (- i)) else FormatUint (nat i))"

subsection \<open>net/url and net/http\<close>

text \<open>
  \<open>url.Values\<close> is \<open>map[string][]string\<close>; \<open>Get\<close> gives the first value of a key, and
  the empty string when the key is absent or has no value.
\<close>

type_synonym Values = "string \<rightharpoonup> string list"

definition Get :: "Values \<Rightarrow> string \<Rightarrow> string" where
  "Get v key = (case v key of None \<Rightarrow> [] | Some [] \<Rightarrow> [] | Some (x # _) \<Rightarrow> x)"

record Request =
  Query :: Values

text \<open>
  The response as the client sees it. \<open>status\<close> is \<open>None\<close> until the header is
  written; a handler that returns without writing it answers 200.
\<close>

record ResponseWriter =
  header :: "string \<rightharpoonup> string"
  status :: "nat option"
  body :: string

definition new_response :: ResponseWriter where
  "new_response = \<lparr>header = Map.empty, status = None, body = []\<rparr>"

definition Code :: "ResponseWriter \<Rightarrow> nat" where
  "Code rw = (case status rw of None \<Rightarrow> 200 | Some c \<Rightarrow> c)"

definition StatusBadRequest :: nat where "StatusBadRequest = 400"
definition StatusForbidden :: nat where "StatusForbidden = 403"
definition StatusInternalServerError :: nat where "StatusInternalServerError = 500"

definition Header_Set :: "string \<Rightarrow> string \<Rightarrow> ResponseWriter \<Rightarrow> ResponseWriter" where
  "Header_Set k v rw = (if status rw = None then rw\<lparr>header := (header rw)(k \<mapsto> v)\<rparr> else rw)"

definition WriteHeader :: "nat \<Rightarrow> ResponseWriter \<Rightarrow> ResponseWriter" where
  "WriteHeader c rw = (if status rw = None then rw\<lparr>status := Some c\<rparr> else rw)"

definition Write :: "string \<Rightarrow> ResponseWriter \<Rightarrow> ResponseWriter" where
  "Write bs rw = (let rw' = WriteHeader 200 rw in rw'\<lparr>body := body rw' @ bs\<rparr>)"

text \<open>\<open>http.Error\<close>: plain-text headers, the status, then the message and a newline.\<close>

definition http_Error :: "string \<Rightarrow> nat \<Rightarrow> ResponseWriter \<Rightarrow> ResponseWriter" where
  "http_Error msg c rw =
     Write (msg @ ''\<newline>'')
       (WriteHeader c
         (Header_Set ''X-Content-Type-Options'' ''nosniff''
           (Header_Set ''Content-Type'' ''text/plain; charset=utf-8'' rw)))"


section \<open>The operating system as the handlers see it\<close>

text \<open>
  The handlers reach the outside world through \<open>os.Stat\<close>, \<open>exec.LookPath\<close>,
  \<open>os.MkdirTemp\<close>, \<open>exec.Cmd.Run\<close>, \<open>os.Open\<close>, \<open>io.Copy\<close> and \<open>os.RemoveAll\<close>. The
  model keeps a file system (paths to nodes) and a trace of these calls in the order the
  handler makes them; what the outside world answers is an \<open>env\<close>, a parameter of every
  handler. Writes to the process log (\<open>log.Printf\<close>) are not part of the model.
\<close>

datatype node = Dir | File string

type_synonym filesystem = "string \<rightharpoonup> node"

text \<open>\<open>FileInfo.Size()\<close>: the length of a file; Linux reports a block for a directory.\<close>

fun Size :: "node \<Rightarrow> nat" where
  "Size (File bs) = length bs"
| "Size Dir = 4096"

datatype event =
    Stat string
  | LookPath string
  | MkdirTemp string string
  | Run "string list"
  | Open string
  | Close string
  | RemoveAll string

datatype stat_error = NotExist | OtherErr string

text \<open>
  How a child process ended: it exited with a status, or \<open>Run\<close> reports another error
  (it could not be started, or it was killed), with that error's text.
\<close>

datatype wait_status = Exited nat | Failed string

record process =
  exit :: wait_status
  out :: string
  errout :: string

record env =
  stat_fault :: "string \<Rightarrow> string option"
  look_path :: "string \<Rightarrow> string + string"
  mkdir_temp :: "filesystem \<Rightarrow> string \<Rightarrow> string \<Rightarrow> string + string"
  spawn :: "string list \<Rightarrow> filesystem \<Rightarrow> process \<times> filesystem"
  open_fault :: "string \<Rightarrow> string option"
  copy_fault :: "string \<Rightarrow> (nat \<times> string) option"
  remove_fault :: "filesystem \<Rightarrow> string \<Rightarrow> (string \<times> filesystem) option"

record state =
  resp :: ResponseWriter
  files :: filesystem
  trace :: "event list"

definition start :: "filesystem \<Rightarrow> state" where
  "start fs = \<lparr>resp = new_response, files = fs, trace = []\<rparr>"

definition reply :: "(ResponseWriter \<Rightarrow> ResponseWriter) \<Rightarrow> state \<Rightarrow> state" where
  "reply f s = s\<lparr>resp := f (resp s)\<rparr>"

definition log_call :: "event \<Rightarrow> state \<Rightarrow> state" where
  "log_call ev s = s\<lparr>trace := trace s @ [ev]\<rparr>"

text \<open>
  \<open>os.Stat\<close>: an error that is not "does not exist" when the outside world refuses the
  lookup, "does not exist" when the path has no node, the node's information otherwise.
\<close>

definition os_Stat :: "env \<Rightarrow> string \<Rightarrow> state \<Rightarrow> (stat_error + node) \<times> state" where
  "os_Stat e path s =
     ((case stat_fault e path of
         Some m \<Rightarrow> Inl (OtherErr m)
       | None \<Rightarrow> (case files s path of None \<Rightarrow> Inl NotExist | Some n \<Rightarrow> Inr n)),
      log_call (Stat path) s)"

text \<open>\<open>exec.LookPath\<close>: the error's text, or the resolved path.\<close>

definition exec_LookPath :: "env \<Rightarrow> string \<Rightarrow> state \<Rightarrow> (string + string) \<times> state" where
  "exec_LookPath e file s = (look_path e file, log_call (LookPath file) s)"

text \<open>\<open>os.MkdirTemp(dir, pattern)\<close>: the error's text, or the directory it has created.\<close>

definition os_MkdirTemp :: "env \<Rightarrow> string \<Rightarrow> string \<Rightarrow> state \<Rightarrow> (string + string) \<times> state" where
  "os_MkdirTemp e dir pattern s =
     (case mkdir_temp e (files s) dir pattern of
        Inl m \<Rightarrow> (Inl m, log_call (MkdirTemp dir pattern) s)
      | Inr name \<Rightarrow>
          (Inr name, log_call (MkdirTemp dir pattern) (s\<lparr>files := (files s)(name \<mapsto> Dir)\<rparr>)))"

text \<open>
  \<open>os.RemoveAll(path)\<close>: when it reports no error, the path and everything below it
  are gone (the empty path is left alone). When the outside world makes it fail, it
  returns the error's text and has removed what it could: the file system it leaves is
  the outside world's to say.
\<close>

definition remove_tree :: "string \<Rightarrow> filesystem \<Rightarrow> filesystem" where
  "remove_tree path fs =
     (if path = [] then fs
      else (\<lambda>p. if p = path \<or> prefix (path @ ''/'') p then None else fs p))"

definition os_RemoveAll :: "env \<Rightarrow> string \<Rightarrow> state \<Rightarrow> string option \<times> state" where
  "os_RemoveAll e path s =
     (case remove_fault e (files s) path of
        None \<Rightarrow> (None, log_call (RemoveAll path) (s\<lparr>files := remove_tree path (files s)\<rparr>))
      | Some (m, fs') \<Rightarrow> (Some m, log_call (RemoveAll path) (s\<lparr>files := fs'\<rparr>)))"

text \<open>
  The error of \<open>Cmd.Run\<close>: none for exit status 0, \<open>exit status N\<close> for another status,
  the error's own text otherwise.
\<close>

fun run_error :: "wait_status \<Rightarrow> string option" where
  "run_error (Exited n) = (if n = 0 then None else Some (''exit status '' @ Itoa (int n)))"
| "run_error (Failed m) = Some m"

text \<open>
  \<open>exec.Command(argv...).Run()\<close> with both output streams captured in buffers: the
  error, the bytes of standard output and of standard error.
\<close>

definition cmd_Run :: "env \<Rightarrow> string list \<Rightarrow> state \<Rightarrow> (string option \<times> string \<times> string) \<times> state" where
  "cmd_Run e argv s =
     (case spawn e argv (files s) of
        (p, fs') \<Rightarrow> ((run_error (exit p), out p, errout p), log_call (Run argv) (s\<lparr>files := fs'\<rparr>)))"

text \<open>\<open>os.Open\<close>: the error's text, or the path as the handle of the open file.\<close>

definition os_Open :: "env \<Rightarrow> string \<Rightarrow> state \<Rightarrow> (string + string) \<times> state" where
  "os_Open e path s =
     ((case open_fault e path of
         Some m \<Rightarrow> Inl m
       | None \<Rightarrow>
           (case files s path of
              None \<Rightarrow> Inl (''open '' @ path @ '': no such file or directory'')
            | Some _ \<Rightarrow> Inr path)),
      log_call (Open path) s)"

text \<open>
  \<open>io.Copy(w, file)\<close>: all bytes of the file reach the response, or the copy stops with
  an error after a number of bytes. Nothing is written when no byte was read.
\<close>

definition write_bytes :: "string \<Rightarrow> state \<Rightarrow> state" where
  "write_bytes bs s = (if bs = [] then s else reply (Write bs) s)"

definition io_Copy :: "env \<Rightarrow> string \<Rightarrow> state \<Rightarrow> string option \<times> state" where
  "io_Copy e file s =
     (case files s file of
        Some (File bs) \<Rightarrow>
          (case copy_fault e bs of
             None \<Rightarrow> (None, write_bytes bs s)
           | Some (n, m) \<Rightarrow> (Some m, write_bytes (take n bs) s))
      | Some Dir \<Rightarrow> (Some ''is a directory'', s)
      | None \<Rightarrow> (Some ''file already closed'', s))"

section \<open>The handlers of main.go\<close>

text \<open>
  The format string of \<open>generateMockProfile\<close> is its first line, with the verbs \<open>%s\<close> and
  \<open>%d\<close>, followed by six lines that hold no verb; \<open>mockStacks\<close> is those six lines.
\<close>

definition mockStacks :: string where
  "mockStacks =
     ''main;runtime.main;main.main;net/http.ListenAndServe;net/http.(*Server).Serve 10\<newline>main;runtime.main;main.main;net/http.ListenAndServe;net/http.(*Server).Serve;net/http.(*conn).serve 25\<newline>main;runtime.main;main.main;net/http.ListenAndServe;net/http.(*Server).Serve;net/http.(*conn).serve;net/http.serverHandler.ServeHTTP 15\<newline>redis-server;main;aeMain;aeProcessEvents;aeApiPoll 50\<newline>redis-server;main;aeMain;aeProcessEvents;processCommand;lookupCommand 30\<newline>redis-server;main;aeMain;aeProcessEvents;processCommand;call 40\<newline>''"

definition generateMockProfile :: "string \<Rightarrow> int \<Rightarrow> string" where
  "generateMockProfile pid duration =
     ''# Mock profile data for PID '' @ pid @ '', duration '' @ Itoa duration @
     '' seconds\<newline>'' @ mockStacks"

text \<open>\<open>validatePID\<close> returns the text of its error, or \<open>None\<close> for \<open>nil\<close>.\<close>

definition validatePID :: "env \<Rightarrow> string \<Rightarrow> state \<Rightarrow> string option \<times> state" where
  "validatePID e pid s =
     (case Atoi pid of
        Inl _ \<Rightarrow> (Some (''invalid PID format: '' @ pid), s)
      | Inr _ \<Rightarrow>
          (case os_Stat e (''/proc/'' @ pid) s of
             (Inl NotExist, s') \<Rightarrow> (Some (''process with PID '' @ pid @ '' does not exist''), s')
           | (Inl (OtherErr m), s') \<Rightarrow> (Some (''cannot access process '' @ pid @ '': '' @ m), s')
           | (Inr _, s') \<Rightarrow> (None, s')))"

definition checkRequiredTools :: "env \<Rightarrow> state \<Rightarrow> string option \<times> state" where
  "checkRequiredTools e s =
     (case exec_LookPath e ''perf'' s of
        (Inl m, s1) \<Rightarrow>
          (Some (''perf tool not found: '' @ m @ ''. Install with: sudo apt-get install linux-perf''), s1)
      | (Inr _, s1) \<Rightarrow>
          (case exec_LookPath e ''pprof'' s1 of
             (Inl m, s2) \<Rightarrow>
               (Some (''pprof tool not found: '' @ m @
                  ''. Install with: go install github.com/google/pprof@latest''), s2)
           | (Inr _, s2) \<Rightarrow> (None, s2)))"


text \<open>
  \<open>runPerfProfile\<close>, from the last statement to the first. Step 3 serves the converted
  file; the deferred \<open>pprofFile.Close()\<close> runs when the function returns, after the copy.
\<close>

definition servePprofFile :: "env \<Rightarrow> string \<Rightarrow> int \<Rightarrow> string \<Rightarrow> state \<Rightarrow> state" where
  "servePprofFile e pid duration pprofPath s =
     (case os_Open e pprofPath s of
        (Inl m, s1) \<Rightarrow>
          reply (http_Error (''Failed to open pprof file: '' @ m) StatusInternalServerError) s1
      | (Inr pprofFile, s1) \<Rightarrow>
          (let s2 = reply (Header_Set ''Content-Type'' ''application/octet-stream'') s1;
               s3 = reply (Header_Set ''Content-Disposition''
                      (''attachment; filename=profile-'' @ pid @ ''-'' @ Itoa duration @ ''.pb.gz'')) s2
           in case io_Copy e pprofFile s3 of
                (Some _, s4) \<Rightarrow> log_call (Close pprofFile) s4
              | (None, s4) \<Rightarrow> log_call (Close pprofFile) s4))"

text \<open>Step 2 converts \<open>perf.data\<close> and checks the converted file.\<close>

definition convertPerfData :: "env \<Rightarrow> string \<Rightarrow> int \<Rightarrow> string \<Rightarrow> string \<Rightarrow> state \<Rightarrow> state" where
  "convertPerfData e pid duration perfDataPath pprofPath s =
     (case cmd_Run e [''pprof'', ''-proto'', ''-output'', pprofPath, perfDataPath] s of
        ((Some err, _, stderrStr), s1) \<Rightarrow>
          (if Contains stderrStr ''no samples'' then
             reply (http_Error
               ''No samples found in perf.data - process may have been idle during profiling''
               StatusBadRequest) s1
           else if Contains stderrStr ''permission denied'' then
             reply (http_Error ''Permission denied accessing perf.data file'' StatusForbidden) s1
           else
             reply (http_Error (''pprof conversion failed: '' @ err @ ''\<newline>Stderr: '' @ stderrStr)
               StatusInternalServerError) s1)
      | ((None, _, _), s1) \<Rightarrow>
          (case os_Stat e pprofPath s1 of
             (Inl _, s2) \<Rightarrow>
               reply (http_Error ''pprof file was not created'' StatusInternalServerError) s2
           | (Inr stat, s2) \<Rightarrow>
               (if Size stat = 0 then
                  reply (http_Error ''pprof file is empty - conversion produced no data''
                    StatusInternalServerError) s2
                else servePprofFile e pid duration pprofPath s2)))"

text \<open>
  The arguments of the capture command, and the statements of \<open>runPerfProfile\<close> that
  follow \<open>defer os.RemoveAll(tempDir)\<close>: step 1 and the check of \<open>perf.data\<close>.
\<close>

definition perfArgs :: "string \<Rightarrow> int \<Rightarrow> string \<Rightarrow> string list" where
  "perfArgs pid duration perfDataPath =
     [''perf'', ''record'', ''-g'', ''--pid'', pid, ''-F'', ''999'', ''-o'', perfDataPath,
      ''--'', ''sleep'', Itoa duration]"

definition perfSession :: "env \<Rightarrow> string \<Rightarrow> int \<Rightarrow> string \<Rightarrow> state \<Rightarrow> state" where
  "perfSession e pid duration tempDir s =
     (let perfDataPath = filepath_Join tempDir ''perf.data'';
          pprofPath = filepath_Join tempDir ''profile.pb.gz''
      in case cmd_Run e (perfArgs pid duration perfDataPath) s of
           ((Some err, _, stderrStr), s1) \<Rightarrow>
             (if Contains stderrStr ''Permission denied'' then
                reply (http_Error
                  ''Permission denied: perf requires elevated privileges. Run with sudo or adjust perf_event_paranoid settings.''
                  StatusForbidden) s1
              else if Contains stderrStr ''No such process'' then
                reply (http_Error
                  (''Process with PID '' @ pid @ '' not found or exited during profiling'')
                  StatusBadRequest) s1
              else
                reply (http_Error (''perf record failed: '' @ err @ ''\<newline>Stderr: '' @ stderrStr)
                  StatusInternalServerError) s1)
         | ((None, _, _), s1) \<Rightarrow>
             (case os_Stat e perfDataPath s1 of
                (Inl _, s2) \<Rightarrow>
                  reply (http_Error ''perf.data file was not created'' StatusInternalServerError) s2
              | (Inr stat, s2) \<Rightarrow>
                  (if Size stat = 0 then
                     reply (http_Error ''perf.data file is empty - no samples collected''
                       StatusInternalServerError) s2
                   else convertPerfData e pid duration perfDataPath pprofPath s2)))"

text \<open>
  \<open>runPerfProfile\<close>: the tool check, the temporary directory, and the session with the
  deferred \<open>os.RemoveAll(tempDir)\<close> as the last thing done on every return of the session.
  The deferred call's error is dropped: only the state it leaves is kept.
\<close>

definition runPerfProfile :: "env \<Rightarrow> string \<Rightarrow> int \<Rightarrow> state \<Rightarrow> state" where
  "runPerfProfile e pid duration s =
     (case checkRequiredTools e s of
        (Some err, s1) \<Rightarrow>
          reply (http_Error (''Required tools not available: '' @ err) StatusInternalServerError) s1
      | (None, s1) \<Rightarrow>
          (case os_MkdirTemp e [] ''bcc-exporter-'' s1 of
             (Inl m, s2) \<Rightarrow>
               reply (http_Error (''Failed to create temp directory: '' @ m)
                 StatusInternalServerError) s2
           | (Inr tempDir, s2) \<Rightarrow>
               snd (os_RemoveAll e tempDir (perfSession e pid duration tempDir s2))))"

definition bccArgs :: "string \<Rightarrow> int \<Rightarrow> string list" where
  "bccArgs pid duration = [''profile-bpfcc'', ''-p'', pid, ''-F'', ''999'', ''-f'', Itoa duration]"

definition runBCCProfile :: "env \<Rightarrow> string \<Rightarrow> int \<Rightarrow> state \<Rightarrow> state" where
  "runBCCProfile e pid duration s =
     (case cmd_Run e (''sudo'' # bccArgs pid duration) s of
        ((Some err, _, stderr), s1) \<Rightarrow>
          reply (http_Error (''Profiler failed: '' @ err @ ''\<newline>Stderr: '' @ stderr)
            StatusInternalServerError) s1
      | ((None, stdout, _), s1) \<Rightarrow>
          reply (Write stdout) (reply (Header_Set ''Content-Type'' ''text/plain'') s1))"

definition runProfile :: "env \<Rightarrow> Request \<Rightarrow> string \<Rightarrow> state \<Rightarrow> state" where
  "runProfile e r format s =
     (let pid = Get (Query r) ''pid'';
          seconds = Get (Query r) ''seconds'';
          testMode = (Get (Query r) ''test'' = ''true'')
      in if pid = [] \<or> seconds = [] then
           reply (http_Error ''Missing pid or seconds'' StatusBadRequest) s
         else
           (case Atoi seconds of
              Inl _ \<Rightarrow> reply (http_Error ''Invalid seconds'' StatusBadRequest) s
            | Inr dur \<Rightarrow>
                (if dur \<le> 0 \<or> dur > 300 then
                   reply (http_Error ''Invalid seconds'' StatusBadRequest) s
                 else if testMode then
                   (let mockData = generateMockProfile pid dur;
                        s1 = (if format = ''pprof''
                              then reply (Header_Set ''Content-Type'' ''application/octet-stream'') s
                              else reply (Header_Set ''Content-Type'' ''text/plain'') s)
                    in reply (Write mockData) s1)
                 else
                   (case validatePID e pid s of
                      (Some err, s1) \<Rightarrow>
                        reply (http_Error (''Invalid PID: '' @ err) StatusBadRequest) s1
                    | (None, s1) \<Rightarrow>
                        (if format = ''pprof'' then runPerfProfile e pid dur s1
                         else runBCCProfile e pid dur s1)))))"

definition handlePprof :: "env \<Rightarrow> Request \<Rightarrow> state \<Rightarrow> state" where
  "handlePprof e r s = runProfile e r ''pprof'' s"

definition handleFolded :: "env \<Rightarrow> Request \<Rightarrow> state \<Rightarrow> state" where
  "handleFolded e r s = runProfile e r ''folded'' s"


section \<open>Vocabulary of the properties\<close>

text \<open>
  A folded-stack line \<open>frame;frame;...;frame COUNT\<close>: after the last space a count of
  decimal digits, before it one or more frames separated by \<open>;\<close>, none of them empty.
\<close>

definition is_folded_line :: "string \<Rightarrow> bool" where
  "is_folded_line l =
     (let count = rev (takeWhile (\<lambda>c. c \<noteq> CHR '' '') (rev l));
          stack = rev (drop 1 (dropWhile (\<lambda>c. c \<noteq> CHR '' '') (rev l)))
      in CHR '' '' \<in> set l \<and> count \<noteq> [] \<and> list_all is_digit count \<and>
         list_all (\<lambda>f. f \<noteq> []) (split_on CHR '';'' stack))"

text \<open>An optional sign followed by one or more decimal digits.\<close>

fun signed_decimal :: "string \<Rightarrow> bool" where
  "signed_decimal [] = False"
| "signed_decimal (c # cs) =
     (if c = CHR ''+'' \<or> c = CHR ''-'' then cs \<noteq> [] \<and> list_all is_digit cs
      else list_all is_digit (c # cs))"

text \<open>
  The number an optionally signed run of decimal digits stands for: the digits read from
  the left, each step ten times the number so far plus the digit.
\<close>

fun decimal_value :: "nat \<Rightarrow> string \<Rightarrow> nat" where
  "decimal_value n [] = n"
| "decimal_value n (c # cs) = decimal_value (n * 10 + digit_val c) cs"

fun signed_value :: "string \<Rightarrow> int" where
  "signed_value [] = 0"
| "signed_value (c # cs) =
     (if c = CHR ''-'' then - int (decimal_value 0 cs)
      else if c = CHR ''+'' then int (decimal_value 0 cs)
      else int (decimal_value 0 (c # cs)))"

fun is_Run :: "event \<Rightarrow> bool" where
  "is_Run (Run _) = True"
| "is_Run _ = False"

text \<open>A request with the given query parameters, one value each.\<close>

definition request :: "(string \<times> string) list \<Rightarrow> Request" where
  "request kvs = \<lparr>Query = map_of (map (\<lambda>(k, v). (k, [v])) kvs)\<rparr>"

section \<open>Sample environments\<close>

definition exited :: "nat \<Rightarrow> string \<Rightarrow> string \<Rightarrow> process" where
  "exited n so se = \<lparr>exit = Exited n, out = so, errout = se\<rparr>"

text \<open>
  A machine on which every tool works: \<open>perf\<close> and \<open>pprof\<close> write their output files
  into the session directory, the profiler prints one folded stack.
\<close>

definition working_spawn :: "string list \<Rightarrow> filesystem \<Rightarrow> process \<times> filesystem" where
  "working_spawn argv fs =
     (if take 1 argv = [''perf''] then
        (exited 0 [] [], fs(''/tmp/bcc-exporter-1/perf.data'' \<mapsto> File ''PERFILE2''))
      else if take 1 argv = [''pprof''] then
        (exited 0 [] [], fs(''/tmp/bcc-exporter-1/profile.pb.gz'' \<mapsto> File ''profile''))
      else (exited 0 ''main;work 7\<newline>'' [], fs))"

definition working_env :: env where
  "working_env =
     \<lparr>stat_fault = (\<lambda>_. None),
      look_path = (\<lambda>file. Inr (''/usr/bin/'' @ file)),
      mkdir_temp = (\<lambda>_ _ _. Inr ''/tmp/bcc-exporter-1''),
      spawn = working_spawn,
      open_fault = (\<lambda>_. None),
      copy_fault = (\<lambda>_. None),
      remove_fault = (\<lambda>_ _. None)\<rparr>"

text \<open>The same machine, where every child process exits with status 1 and the given stderr.\<close>

definition failing_env :: "string \<Rightarrow> env" where
  "failing_env se = working_env\<lparr>spawn := (\<lambda>_ fs. (exited 1 [] se, fs))\<rparr>"

text \<open>The same machine, where \<open>perf\<close> exits with status 0 and leaves an empty \<open>perf.data\<close>.\<close>

definition idle_env :: env where
  "idle_env =
     working_env\<lparr>spawn := (\<lambda>_ fs. (exited 0 [] [], fs(''/tmp/bcc-exporter-1/perf.data'' \<mapsto> File [])))\<rparr>"

text \<open>A file system in which process 1 is alive.\<close>

definition proc1 :: filesystem where
  "proc1 = [''/proc/1'' \<mapsto> Dir]"


section \<open>Facts about the model\<close>

lemmas atoi_eval = Atoi_def ParseUint_def is_digit_def digit_val_def maxUint64_def signed_bound_def

lemmas itoa_eval = Itoa_def FormatUint.simps

lemmas http_eval = http_Error_def Write_def WriteHeader_def Header_Set_def new_response_def
  Code_def StatusBadRequest_def StatusForbidden_def StatusInternalServerError_def

lemmas os_eval = start_def reply_def log_call_def os_Stat_def exec_LookPath_def os_MkdirTemp_def
  remove_tree_def os_RemoveAll_def cmd_Run_def os_Open_def write_bytes_def io_Copy_def
  filepath_Join_def filepath_Clean_def

lemmas handler_eval = validatePID_def checkRequiredTools_def servePprofFile_def
  convertPerfData_def perfArgs_def perfSession_def runPerfProfile_def bccArgs_def
  runBCCProfile_def runProfile_def Let_def

lemmas sample_eval = request_def Get_def exited_def working_spawn_def working_env_def
  failing_env_def idle_env_def proc1_def Contains_def sublist_code

lemma Code_http_Error: "status rw = None \<Longrightarrow> Code (http_Error msg c rw) = c"
  by (simp add: http_Error_def Write_def WriteHeader_def Header_Set_def Code_def Let_def)

lemma body_http_Error: "body (http_Error msg c rw) = body rw @ msg @ ''\<newline>''"
  by (simp add: http_Error_def Write_def WriteHeader_def Header_Set_def Let_def)

lemma resp_reply: "resp (reply f s) = f (resp s)"
  by (simp add: reply_def)

lemma files_reply: "files (reply f s) = files s"
  by (simp add: reply_def)

lemma trace_reply: "trace (reply f s) = trace s"
  by (simp add: reply_def)

lemma resp_log_call: "resp (log_call ev s) = resp s"
  by (simp add: log_call_def)

lemma files_log_call: "files (log_call ev s) = files s"
  by (simp add: log_call_def)

lemma trace_log_call: "trace (log_call ev s) = trace s @ [ev]"
  by (simp add: log_call_def)

lemmas state_simps = resp_reply files_reply trace_reply resp_log_call files_log_call trace_log_call

lemma files_RemoveAll:
  "path \<noteq> [] \<Longrightarrow> fst (os_RemoveAll e path s) = None \<Longrightarrow>
   files (snd (os_RemoveAll e path s)) path = None"
  by (auto simp: os_RemoveAll_def remove_tree_def state_simps split: option.splits)

lemma files_RemoveAll_below:
  "path \<noteq> [] \<Longrightarrow> fst (os_RemoveAll e path s) = None \<Longrightarrow> prefix (path @ ''/'') p \<Longrightarrow>
   files (snd (os_RemoveAll e path s)) p = None"
  by (auto simp: os_RemoveAll_def remove_tree_def state_simps split: option.splits)

lemma trace_RemoveAll: "trace (snd (os_RemoveAll e path s)) = trace s @ [RemoveAll path]"
  by (auto simp: os_RemoveAll_def state_simps split: option.splits)

lemma resp_RemoveAll: "resp (snd (os_RemoveAll e path s)) = resp s"
  by (auto simp: os_RemoveAll_def state_simps split: option.splits)

lemma runPerfProfile_session:
  assumes "checkRequiredTools e s = (None, s1)"
    and "os_MkdirTemp e [] ''bcc-exporter-'' s1 = (Inr tempDir, s2)"
  shows "runPerfProfile e pid d s = snd (os_RemoveAll e tempDir (perfSession e pid d tempDir s2))"
  using assms by (simp add: runPerfProfile_def)

lemma resp_checkRequiredTools: "checkRequiredTools e s = (r, s1) \<Longrightarrow> resp s1 = resp s"
  by (auto simp: checkRequiredTools_def exec_LookPath_def state_simps split: sum.splits)

lemma resp_MkdirTemp: "os_MkdirTemp e dir pat s = (r, s1) \<Longrightarrow> resp s1 = resp s"
  by (auto simp: os_MkdirTemp_def log_call_def split: sum.splits)

lemma files_MkdirTemp: "os_MkdirTemp e dir pat s = (Inr name, s1) \<Longrightarrow> files s1 name = Some Dir"
  by (auto simp: os_MkdirTemp_def state_simps split: sum.splits)

lemma cmd_Run_spawn:
  "spawn e argv (files s) = (p, fs') \<Longrightarrow>
   cmd_Run e argv s =
     ((run_error (exit p), out p, errout p), log_call (Run argv) (s\<lparr>files := fs'\<rparr>))"
  by (simp add: cmd_Run_def)

lemma Contains_intro: "s = xs @ sub @ ys \<Longrightarrow> Contains s sub"
  by (simp add: Contains_def sublist_appendI)

lemma perfSession_failed:
  assumes "spawn e (perfArgs pid d (filepath_Join tempDir ''perf.data'')) (files s) = (p, fs')"
    and "run_error (exit p) = Some err"
  shows "resp (perfSession e pid d tempDir s) =
      (if Contains (errout p) ''Permission denied'' then
         http_Error
           ''Permission denied: perf requires elevated privileges. Run with sudo or adjust perf_event_paranoid settings.''
           StatusForbidden (resp s)
       else if Contains (errout p) ''No such process'' then
         http_Error (''Process with PID '' @ pid @ '' not found or exited during profiling'')
           StatusBadRequest (resp s)
       else
         http_Error (''perf record failed: '' @ err @ ''\<newline>Stderr: '' @ errout p)
           StatusInternalServerError (resp s))"
  using assms by (simp add: perfSession_def cmd_Run_spawn state_simps)

lemma Atoi_empty: "Atoi [] = Inl ErrSyntax"
  by (simp add: Atoi_def)

lemma mock_has_pid: "Contains (generateMockProfile pid n) pid"
  by (rule Contains_intro [where xs = "''# Mock profile data for PID ''"
        and ys = "'', duration '' @ Itoa n @ '' seconds\<newline>'' @ mockStacks"])
    (simp add: generateMockProfile_def)

lemma runProfile_mock:
  assumes "Get (Query r) ''pid'' \<noteq> []"
    and "Atoi (Get (Query r) ''seconds'') = Inr n" and "1 \<le> n" and "n \<le> 300"
    and "Get (Query r) ''test'' = ''true''"
  shows "runProfile e r format s =
      reply (Write (generateMockProfile (Get (Query r) ''pid'') n))
        (reply (Header_Set ''Content-Type''
           (if format = ''pprof'' then ''application/octet-stream'' else ''text/plain'')) s)"
proof -
  have "Get (Query r) ''seconds'' \<noteq> []"
    using assms(2) Atoi_empty by auto
  then show ?thesis
    using assms by (simp add: runProfile_def Let_def)
qed

lemma validatePID_ok:
  "validatePID e pid s = (None, s1) \<Longrightarrow> s1 = log_call (Stat (''/proc/'' @ pid)) s"
  by (auto simp: validatePID_def os_Stat_def split: sum.splits option.splits stat_error.splits)

lemma runProfile_folded:
  assumes "Get (Query r) ''pid'' = pid" and "pid \<noteq> []"
    and "Atoi (Get (Query r) ''seconds'') = Inr n" and "1 \<le> n" and "n \<le> 300"
    and "Get (Query r) ''test'' \<noteq> ''true''"
    and "validatePID e pid s = (None, s1)"
    and "spawn e (''sudo'' # bccArgs pid n) (files s1) = (p, fs')"
  shows "handleFolded e r s =
     (case run_error (exit p) of
        Some err \<Rightarrow>
          reply (http_Error (''Profiler failed: '' @ err @ ''\<newline>Stderr: '' @ errout p)
            StatusInternalServerError)
            (log_call (Run (''sudo'' # bccArgs pid n)) (s1\<lparr>files := fs'\<rparr>))
      | None \<Rightarrow>
          reply (Write (out p)) (reply (Header_Set ''Content-Type'' ''text/plain'')
            (log_call (Run (''sudo'' # bccArgs pid n)) (s1\<lparr>files := fs'\<rparr>))))"
proof -
  have "Get (Query r) ''seconds'' \<noteq> []"
    using assms(3) Atoi_empty by auto
  then show ?thesis
    using assms
    by (simp add: handleFolded_def runProfile_def Let_def runBCCProfile_def cmd_Run_spawn
        split: option.splits)
qed

lemma split_on_nonempty: "split_on sep s \<noteq> []"
  by (induction s) (auto split: list.splits)

lemma split_on_append: "split_on sep (xs @ sep # ys) = split_on sep xs @ split_on sep ys"
proof (induction xs)
  case Nil
  then show ?case by simp
next
  case (Cons x xs)
  then show ?case
    using split_on_nonempty [of sep xs] by (auto split: list.splits)
qed

lemma mock_lines:
  "''redis-server;main;aeMain;aeProcessEvents;aeApiPoll 50'' \<in>
     set (split_on CHR ''\<newline>'' (generateMockProfile pid n))"
proof -
  have "generateMockProfile pid n =
      (''# Mock profile data for PID '' @ pid @ '', duration '' @ Itoa n @ '' seconds'')
        @ CHR ''\<newline>'' # mockStacks"
    by (simp add: generateMockProfile_def)
  then have "split_on CHR ''\<newline>'' (generateMockProfile pid n) =
      split_on CHR ''\<newline>'' (''# Mock profile data for PID '' @ pid @ '', duration '' @ Itoa n @ '' seconds'')
        @ split_on CHR ''\<newline>'' mockStacks"
    by (simp only: split_on_append)
  moreover have "''redis-server;main;aeMain;aeProcessEvents;aeApiPoll 50'' \<in>
      set (split_on CHR ''\<newline>'' mockStacks)"
    by (simp add: mockStacks_def)
  ultimately show ?thesis by simp
qed

lemma mock_line_folded: "is_folded_line ''redis-server;main;aeMain;aeProcessEvents;aeApiPoll 50''"
  by (simp add: is_folded_line_def is_digit_def)

lemma mock_has_duration: "Contains (generateMockProfile pid n) (Itoa n)"
  by (rule Contains_intro [where xs = "''# Mock profile data for PID '' @ pid @ '', duration ''"
        and ys = "'' seconds\<newline>'' @ mockStacks"])
    (simp add: generateMockProfile_def)

section \<open>The claims\<close>

text \<open>
  Claim C1. A request whose \<open>seconds\<close> value is absent, empty, not an integer for
  \<open>strconv.Atoi\<close>, or an integer outside 1..300 is answered with status 400, and the
  handler makes no call to the operating system on the way (no \<open>/proc\<close> lookup, no tool
  check, no directory, no child process): the trace stays empty and the file system is
  what it was. This holds for every environment, every \<open>test\<close> value and every format.
\<close>

theorem runProfile_rejects_bad_seconds:
  "Query r ''seconds'' = None
     \<or> Get (Query r) ''seconds'' = []
     \<or> (\<exists>err. Atoi (Get (Query r) ''seconds'') = Inl err)
     \<or> (\<exists>n. Atoi (Get (Query r) ''seconds'') = Inr n \<and> (n < 1 \<or> 300 < n))
   \<Longrightarrow> Code (resp (runProfile e r format (start fs))) = 400
     \<and> trace (runProfile e r format (start fs)) = []
     \<and> files (runProfile e r format (start fs)) = fs"
  by (auto simp: runProfile_def Let_def Get_def state_simps start_def new_response_def
      Code_http_Error StatusBadRequest_def split: sum.splits)

theorem runProfile_rejects_bad_seconds_witness:
  "Code (resp (runProfile working_env (request [(''pid'', ''1234'')]) ''pprof'' (start proc1))) = 400
   \<and> trace (runProfile working_env (request [(''pid'', ''1234'')]) ''pprof'' (start proc1)) = []
   \<and> Code (resp (runProfile working_env
         (request [(''pid'', ''1234''), (''seconds'', ''abc''), (''test'', ''true'')])
         ''folded'' (start proc1))) = 400
   \<and> trace (runProfile working_env
         (request [(''pid'', ''1234''), (''seconds'', ''abc''), (''test'', ''true'')])
         ''folded'' (start proc1)) = []
   \<and> Code (resp (runProfile working_env (request [(''pid'', ''1234''), (''seconds'', ''500'')])
         ''pprof'' (start proc1))) = 400
   \<and> trace (runProfile working_env (request [(''pid'', ''1234''), (''seconds'', ''500'')])
         ''pprof'' (start proc1)) = []
   \<and> Code (resp (runProfile working_env (request [(''pid'', ''1234''), (''seconds'', ''0'')])
         ''folded'' (start proc1))) = 400
   \<and> trace (runProfile working_env (request [(''pid'', ''1234''), (''seconds'', ''0'')])
         ''folded'' (start proc1)) = []"
  using runProfile_rejects_bad_seconds
      [of "request [(''pid'', ''1234'')]" working_env "''pprof''" proc1]
    runProfile_rejects_bad_seconds
      [of "request [(''pid'', ''1234''), (''seconds'', ''abc''), (''test'', ''true'')]"
        working_env "''folded''" proc1]
    runProfile_rejects_bad_seconds
      [of "request [(''pid'', ''1234''), (''seconds'', ''500'')]" working_env "''pprof''" proc1]
    runProfile_rejects_bad_seconds
      [of "request [(''pid'', ''1234''), (''seconds'', ''0'')]" working_env "''folded''" proc1]
  by (simp add: request_def Get_def atoi_eval)

text \<open>
  Claim C2. Once \<open>runPerfProfile\<close> has passed the tool check and \<open>os.MkdirTemp\<close> has
  created the session directory, the directory exists, and the deferred
  \<open>os.RemoveAll(tempDir)\<close> is the last call of every run, whatever the child processes,
  \<open>os.Stat\<close>, \<open>os.Open\<close> and \<open>io.Copy\<close> did in between: success and each failure of
  the capture, the conversion, the two checks of the output files, the open and the
  copy. When that call reports no error, the directory is gone with everything below it
  when the handler returns. The handler drops the error of \<open>os.RemoveAll\<close>, so nothing is
  said of the directory when the call fails.
\<close>

theorem runPerfProfile_removes_workspace:
  assumes "checkRequiredTools e s = (None, s1)"
    and "os_MkdirTemp e [] ''bcc-exporter-'' s1 = (Inr tempDir, s2)"
    and "tempDir \<noteq> []"
  shows "files s2 tempDir = Some Dir
       \<and> last (trace (runPerfProfile e pid d s)) = RemoveAll tempDir
       \<and> (fst (os_RemoveAll e tempDir (perfSession e pid d tempDir s2)) = None \<longrightarrow>
            files (runPerfProfile e pid d s) tempDir = None
            \<and> (\<forall>p. prefix (tempDir @ ''/'') p \<longrightarrow> files (runPerfProfile e pid d s) p = None))"
  using assms(3) files_MkdirTemp [OF assms(2)]
  by (simp add: runPerfProfile_session [OF assms(1,2)] files_RemoveAll files_RemoveAll_below
      trace_RemoveAll)

theorem runPerfProfile_removes_workspace_witness:
  "files (snd (os_MkdirTemp working_env [] ''bcc-exporter-''
      (snd (checkRequiredTools working_env (start proc1))))) ''/tmp/bcc-exporter-1'' = Some Dir
   \<and> files (runPerfProfile working_env ''1'' 5 (start proc1)) ''/tmp/bcc-exporter-1'' = None
   \<and> files (runPerfProfile working_env ''1'' 5 (start proc1)) ''/tmp/bcc-exporter-1/perf.data'' = None
   \<and> last (trace (runPerfProfile working_env ''1'' 5 (start proc1))) = RemoveAll ''/tmp/bcc-exporter-1''
   \<and> files (runPerfProfile idle_env ''1'' 5 (start proc1)) ''/tmp/bcc-exporter-1'' = None
   \<and> files (runPerfProfile (failing_env ''boom'') ''1'' 5 (start proc1)) ''/tmp/bcc-exporter-1'' = None"
  using runPerfProfile_removes_workspace
      [of working_env "start proc1" "snd (checkRequiredTools working_env (start proc1))"
        "''/tmp/bcc-exporter-1''"
        "snd (os_MkdirTemp working_env [] ''bcc-exporter-''
           (snd (checkRequiredTools working_env (start proc1))))"
        "''1''" 5]
    runPerfProfile_removes_workspace
      [of idle_env "start proc1" "snd (checkRequiredTools idle_env (start proc1))"
        "''/tmp/bcc-exporter-1''"
        "snd (os_MkdirTemp idle_env [] ''bcc-exporter-''
           (snd (checkRequiredTools idle_env (start proc1))))"
        "''1''" 5]
    runPerfProfile_removes_workspace
      [of "failing_env ''boom''" "start proc1"
        "snd (checkRequiredTools (failing_env ''boom'') (start proc1))"
        "''/tmp/bcc-exporter-1''"
        "snd (os_MkdirTemp (failing_env ''boom'') [] ''bcc-exporter-''
           (snd (checkRequiredTools (failing_env ''boom'') (start proc1))))"
        "''1''" 5]
  by (simp add: os_eval checkRequiredTools_def sample_eval split: option.splits)

text \<open>
  Claim C3. When the capture command \<open>perf record\<close> ends with an error (any exit status
  other than 0, or any other error of \<open>Run\<close>), the handler reads the captured stderr in
  the order of the source: \<open>Permission denied\<close> in it gives 403; otherwise
  \<open>No such process\<close> in it gives 400; otherwise the answer is 500 and the body holds the
  stderr text as it was captured. In each case \<open>os.RemoveAll(tempDir)\<close> is the last call
  of the handler, and when that call reports no error the session directory is gone when
  the handler returns.
\<close>

theorem capture_failure_classified:
  assumes tools: "checkRequiredTools e s = (None, s1)"
    and dir: "os_MkdirTemp e [] ''bcc-exporter-'' s1 = (Inr tempDir, s2)"
    and named: "tempDir \<noteq> []"
    and fresh: "status (resp s) = None"
    and run: "spawn e (perfArgs pid d (filepath_Join tempDir ''perf.data'')) (files s2) = (p, fs')"
    and failed: "run_error (exit p) = Some err"
  shows "(Contains (errout p) ''Permission denied'' \<longrightarrow>
            Code (resp (runPerfProfile e pid d s)) = 403)
       \<and> (\<not> Contains (errout p) ''Permission denied'' \<and> Contains (errout p) ''No such process'' \<longrightarrow>
            Code (resp (runPerfProfile e pid d s)) = 400)
       \<and> (\<not> Contains (errout p) ''Permission denied'' \<and> \<not> Contains (errout p) ''No such process'' \<longrightarrow>
            Code (resp (runPerfProfile e pid d s)) = 500
            \<and> Contains (body (resp (runPerfProfile e pid d s))) (errout p))
       \<and> last (trace (runPerfProfile e pid d s)) = RemoveAll tempDir
       \<and> (fst (os_RemoveAll e tempDir (perfSession e pid d tempDir s2)) = None \<longrightarrow>
            files (runPerfProfile e pid d s) tempDir = None)"
proof -
  have st: "status (resp s2) = None"
    using resp_checkRequiredTools [OF tools] resp_MkdirTemp [OF dir] fresh by simp
  have r: "resp (runPerfProfile e pid d s) = resp (perfSession e pid d tempDir s2)"
    by (simp add: runPerfProfile_session [OF tools dir] resp_RemoveAll)
  have gone: "files (runPerfProfile e pid d s) tempDir = None"
    if "fst (os_RemoveAll e tempDir (perfSession e pid d tempDir s2)) = None"
    using that by (simp add: runPerfProfile_session [OF tools dir] files_RemoveAll named)
  have lst: "last (trace (runPerfProfile e pid d s)) = RemoveAll tempDir"
    by (simp add: runPerfProfile_session [OF tools dir] trace_RemoveAll)
  have raw: "Contains (body (http_Error (''perf record failed: '' @ err @ ''\<newline>Stderr: '' @ errout p) c rw))
      (errout p)" for c rw
    by (rule Contains_intro [where xs = "body rw @ ''perf record failed: '' @ err @ ''\<newline>Stderr: ''"
          and ys = "''\<newline>''"])
      (simp add: body_http_Error)
  show ?thesis
    using st gone lst raw
    by (simp add: r perfSession_failed [OF run failed] Code_http_Error
        StatusForbidden_def StatusBadRequest_def StatusInternalServerError_def)
qed

theorem capture_failure_classified_witness:
  "Code (resp (runPerfProfile (failing_env ''Error: Permission denied'') ''1'' 5 (start proc1))) = 403
   \<and> Code (resp (runPerfProfile (failing_env ''No such process'') ''1'' 5 (start proc1))) = 400
   \<and> Code (resp (runPerfProfile (failing_env ''boom'') ''1'' 5 (start proc1))) = 500
   \<and> Contains (body (resp (runPerfProfile (failing_env ''boom'') ''1'' 5 (start proc1)))) ''boom''
   \<and> files (runPerfProfile (failing_env ''boom'') ''1'' 5 (start proc1)) ''/tmp/bcc-exporter-1'' = None"
  using capture_failure_classified
      [where e = "failing_env ''Error: Permission denied''" and s = "start proc1"
        and ?s1.0 = "snd (checkRequiredTools (failing_env ''Error: Permission denied'') (start proc1))"
        and tempDir = "''/tmp/bcc-exporter-1''"
        and ?s2.0 = "snd (os_MkdirTemp (failing_env ''Error: Permission denied'') [] ''bcc-exporter-''
           (snd (checkRequiredTools (failing_env ''Error: Permission denied'') (start proc1))))"
        and pid = "''1''" and d = 5 and p = "exited 1 [] ''Error: Permission denied''"
        and fs' = "proc1(''/tmp/bcc-exporter-1'' \<mapsto> Dir)" and err = "''exit status 1''"]
    capture_failure_classified
      [where e = "failing_env ''No such process''" and s = "start proc1"
        and ?s1.0 = "snd (checkRequiredTools (failing_env ''No such process'') (start proc1))"
        and tempDir = "''/tmp/bcc-exporter-1''"
        and ?s2.0 = "snd (os_MkdirTemp (failing_env ''No such process'') [] ''bcc-exporter-''
           (snd (checkRequiredTools (failing_env ''No such process'') (start proc1))))"
        and pid = "''1''" and d = 5 and p = "exited 1 [] ''No such process''"
        and fs' = "proc1(''/tmp/bcc-exporter-1'' \<mapsto> Dir)" and err = "''exit status 1''"]
    capture_failure_classified
      [where e = "failing_env ''boom''" and s = "start proc1"
        and ?s1.0 = "snd (checkRequiredTools (failing_env ''boom'') (start proc1))"
        and tempDir = "''/tmp/bcc-exporter-1''"
        and ?s2.0 = "snd (os_MkdirTemp (failing_env ''boom'') [] ''bcc-exporter-''
           (snd (checkRequiredTools (failing_env ''boom'') (start proc1))))"
        and pid = "''1''" and d = 5 and p = "exited 1 [] ''boom''"
        and fs' = "proc1(''/tmp/bcc-exporter-1'' \<mapsto> Dir)" and err = "''exit status 1''"]
  by (simp add: os_eval checkRequiredTools_def sample_eval http_eval itoa_eval perfArgs_def
      split: option.splits)

text \<open>
  Claim C4 says status 400 for an empty capture. A request to \<open>runProfile\<close> with
  format \<open>pprof\<close>, on a machine whose \<open>perf\<close> exits with status 0 and leaves an empty
  \<open>perf.data\<close>, is answered with 500.
\<close>

theorem empty_capture_answers_500:
  "Code (resp (runProfile idle_env (request [(''pid'', ''1''), (''seconds'', ''5'')]) ''pprof'' (start proc1))) = 500
   \<and> body (resp (runProfile idle_env (request [(''pid'', ''1''), (''seconds'', ''5'')]) ''pprof'' (start proc1))) =
        ''perf.data file is empty - no samples collected\<newline>''
   \<and> trace (runProfile idle_env (request [(''pid'', ''1''), (''seconds'', ''5'')]) ''pprof'' (start proc1)) =
       [Stat ''/proc/1'', LookPath ''perf'', LookPath ''pprof'', MkdirTemp [] ''bcc-exporter-'',
        Run [''perf'', ''record'', ''-g'', ''--pid'', ''1'', ''-F'', ''999'', ''-o'',
             ''/tmp/bcc-exporter-1/perf.data'', ''--'', ''sleep'', ''5''],
        Stat ''/tmp/bcc-exporter-1/perf.data'', RemoveAll ''/tmp/bcc-exporter-1'']"
  by (simp add: os_eval handler_eval sample_eval http_eval itoa_eval atoi_eval)

lemma perfSession_empty:
  assumes run: "spawn e (perfArgs pid d (filepath_Join tempDir ''perf.data'')) (files s) = (p, fs')"
    and ok: "exit p = Exited 0"
    and nofault: "stat_fault e (filepath_Join tempDir ''perf.data'') = None"
    and empty: "fs' (filepath_Join tempDir ''perf.data'') = Some n" "Size n = 0"
  shows "perfSession e pid d tempDir s =
      reply (http_Error ''perf.data file is empty - no samples collected'' StatusInternalServerError)
        (log_call (Stat (filepath_Join tempDir ''perf.data''))
          (log_call (Run (perfArgs pid d (filepath_Join tempDir ''perf.data''))) (s\<lparr>files := fs'\<rparr>)))"
  using assms by (simp add: perfSession_def Let_def cmd_Run_spawn os_Stat_def state_simps)

text \<open>
  Claim C4, as the code has it. When the capture command exits with status 0 and
  \<open>perf.data\<close> exists with size 0, \<open>runPerfProfile\<close> answers 500, not 400, and the body
  is the message \<open>perf.data file is empty - no samples collected\<close>, which no other
  branch writes.
\<close>

theorem empty_capture_is_server_error:
  assumes tools: "checkRequiredTools e s = (None, s1)"
    and dir: "os_MkdirTemp e [] ''bcc-exporter-'' s1 = (Inr tempDir, s2)"
    and fresh: "status (resp s) = None"
    and run: "spawn e (perfArgs pid d (filepath_Join tempDir ''perf.data'')) (files s2) = (p, fs')"
    and ok: "exit p = Exited 0"
    and nofault: "stat_fault e (filepath_Join tempDir ''perf.data'') = None"
    and empty: "fs' (filepath_Join tempDir ''perf.data'') = Some n" "Size n = 0"
  shows "Code (resp (runPerfProfile e pid d s)) = 500
       \<and> body (resp (runPerfProfile e pid d s)) =
           body (resp s) @ ''perf.data file is empty - no samples collected\<newline>''"
proof -
  have st: "status (resp s2) = None" and rs: "resp s2 = resp s"
    using resp_checkRequiredTools [OF tools] resp_MkdirTemp [OF dir] fresh by simp_all
  show ?thesis
    using st
    by (simp add: runPerfProfile_session [OF tools dir] perfSession_empty [OF run ok nofault empty]
        resp_RemoveAll state_simps Code_http_Error body_http_Error
        StatusInternalServerError_def rs)
qed

theorem empty_capture_is_server_error_witness:
  "Code (resp (runPerfProfile idle_env ''1'' 5 (start proc1))) = 500
   \<and> body (resp (runPerfProfile idle_env ''1'' 5 (start proc1))) =
        ''perf.data file is empty - no samples collected\<newline>''"
  using empty_capture_is_server_error
      [where e = idle_env and s = "start proc1"
        and ?s1.0 = "snd (checkRequiredTools idle_env (start proc1))"
        and tempDir = "''/tmp/bcc-exporter-1''"
        and ?s2.0 = "snd (os_MkdirTemp idle_env [] ''bcc-exporter-''
           (snd (checkRequiredTools idle_env (start proc1))))"
        and pid = "''1''" and d = 5 and p = "exited 0 [] []"
        and fs' = "proc1(''/tmp/bcc-exporter-1'' \<mapsto> Dir, ''/tmp/bcc-exporter-1/perf.data'' \<mapsto> File [])"
        and n = "File []"]
  by (simp add: os_eval checkRequiredTools_def sample_eval http_eval itoa_eval perfArgs_def)

text \<open>
  Claim C5 says three messages that differ pairwise. A \<open>seconds\<close> value that is not an
  integer (\<open>abc\<close>) and one that is out of range (\<open>500\<close>) get the same body.
\<close>

theorem invalid_seconds_one_message:
  "Atoi ''abc'' = Inl ErrSyntax \<and> Atoi ''500'' = Inr 500
   \<and> body (resp (runProfile working_env (request [(''pid'', ''1234''), (''seconds'', ''abc'')]) ''pprof'' (start proc1))) = ''Invalid seconds\<newline>''
   \<and> body (resp (runProfile working_env (request [(''pid'', ''1234''), (''seconds'', ''500'')]) ''pprof'' (start proc1))) = ''Invalid seconds\<newline>''"
  by (simp add: os_eval handler_eval sample_eval http_eval atoi_eval)

text \<open>
  Claim C5, as the code has it. With \<open>pid\<close> present, \<open>runProfile\<close> has two messages for
  the duration: \<open>Missing pid or seconds\<close> when \<open>seconds\<close> is missing, and
  \<open>Invalid seconds\<close> both when it is not an integer and when the integer is outside
  1..300. The body of the first cause differs from the body of the other two.
\<close>

theorem seconds_diagnostics:
  assumes "Get (Query r1) ''seconds'' = []"
    and "Get (Query r2) ''pid'' \<noteq> []" and "Get (Query r2) ''seconds'' \<noteq> []"
    and "(\<exists>err. Atoi (Get (Query r2) ''seconds'') = Inl err)
       \<or> (\<exists>n. Atoi (Get (Query r2) ''seconds'') = Inr n \<and> (n < 1 \<or> 300 < n))"
  shows "body (resp (runProfile e r1 format (start fs))) = ''Missing pid or seconds\<newline>''
       \<and> body (resp (runProfile e r2 format (start fs))) = ''Invalid seconds\<newline>''
       \<and> body (resp (runProfile e r1 format (start fs))) \<noteq> body (resp (runProfile e r2 format (start fs)))"
proof -
  have b1: "body (resp (runProfile e r1 format (start fs))) = ''Missing pid or seconds\<newline>''"
    using assms(1)
    by (simp add: runProfile_def Let_def state_simps body_http_Error start_def new_response_def)
  have b2: "body (resp (runProfile e r2 format (start fs))) = ''Invalid seconds\<newline>''"
    using assms(2-4)
    by (auto simp: runProfile_def Let_def state_simps body_http_Error start_def new_response_def
        split: sum.splits)
  show ?thesis by (simp add: b1 b2)
qed

theorem seconds_diagnostics_witness:
  "body (resp (runProfile working_env (request [(''pid'', ''1234'')]) ''pprof'' (start proc1))) = ''Missing pid or seconds\<newline>''
   \<and> body (resp (runProfile working_env (request [(''pid'', ''1234''), (''seconds'', ''abc'')]) ''pprof'' (start proc1))) = ''Invalid seconds\<newline>''
   \<and> body (resp (runProfile working_env (request [(''pid'', ''1234''), (''seconds'', ''500'')]) ''pprof'' (start proc1))) = ''Invalid seconds\<newline>''"
  using seconds_diagnostics
      [of "request [(''pid'', ''1234'')]" "request [(''pid'', ''1234''), (''seconds'', ''abc'')]" working_env "''pprof''" proc1]
    seconds_diagnostics
      [of "request [(''pid'', ''1234'')]" "request [(''pid'', ''1234''), (''seconds'', ''500'')]" working_env "''pprof''" proc1]
  by (simp add: request_def Get_def atoi_eval)

text \<open>
  Claim C6 says that \<open>-1\<close> fails with the malformed-identifier message. \<open>validatePID\<close>
  checks the syntax with \<open>strconv.Atoi\<close>, which takes a sign: \<open>-1\<close> passes the syntax
  check and is answered by the \<open>/proc\<close> lookup.
\<close>

theorem validatePID_accepts_minus_one:
  "\<not> list_all is_digit ''-1''
   \<and> fst (validatePID working_env ''-1'' (start proc1)) = Some ''process with PID -1 does not exist''
   \<and> trace (snd (validatePID working_env ''-1'' (start proc1))) = [Stat ''/proc/-1'']"
  by (simp add: os_eval handler_eval sample_eval atoi_eval)

lemma parse_digits_rejects: "\<not> list_all is_digit s \<Longrightarrow> \<exists>err. parse_digits n s = Inl err"
  by (induction s arbitrary: n) auto

lemma Atoi_rejects: "\<not> signed_decimal s \<Longrightarrow> \<exists>err. Atoi s = Inl err"
proof (cases s)
  case Nil
  then show ?thesis by (simp add: Atoi_def)
next
  case (Cons c cs)
  assume ns: "\<not> signed_decimal s"
  show ?thesis
  proof (cases "c = CHR ''+'' \<or> c = CHR ''-''")
    case True
    with ns Cons have "cs = [] \<or> \<not> list_all is_digit cs" by auto
    then have "\<exists>err. ParseUint cs = Inl err"
      using parse_digits_rejects [of cs 0] by (auto simp: ParseUint_def)
    then obtain err where "ParseUint cs = Inl err" ..
    with True Cons show ?thesis
      by (cases err) (auto simp: Atoi_def Let_def)
  next
    case False
    with ns Cons have "\<not> list_all is_digit (c # cs)" by auto
    then have "\<exists>err. ParseUint (c # cs) = Inl err"
      using parse_digits_rejects [of "c # cs" 0] by (auto simp: ParseUint_def)
    then obtain err where "ParseUint (c # cs) = Inl err" ..
    with False Cons show ?thesis
      by (cases err) (auto simp: Atoi_def Let_def)
  qed
qed

lemma decimal_value_ge: "n \<le> decimal_value n s"
proof (induction s arbitrary: n)
  case Nil
  then show ?case by simp
next
  case (Cons c cs)
  have "n \<le> n * 10 + digit_val c" by simp
  also have "\<dots> \<le> decimal_value (n * 10 + digit_val c) cs" by (rule Cons.IH)
  finally show ?case by simp
qed

lemma parse_digits_value:
  "list_all is_digit s \<Longrightarrow> n \<le> maxUint64 \<Longrightarrow>
   parse_digits n s =
     (if decimal_value n s \<le> maxUint64 then Inr (decimal_value n s) else Inl ErrRange)"
proof (induction s arbitrary: n)
  case Nil
  then show ?case by simp
next
  case (Cons c cs)
  show ?case
  proof (cases "n * 10 + digit_val c > maxUint64")
    case True
    then have "decimal_value (n * 10 + digit_val c) cs > maxUint64"
      using decimal_value_ge [of "n * 10 + digit_val c" cs] by linarith
    with True Cons.prems show ?thesis by simp
  next
    case False
    with Cons show ?thesis by simp
  qed
qed

lemma ParseUint_value:
  "s \<noteq> [] \<Longrightarrow> list_all is_digit s \<Longrightarrow>
   ParseUint s =
     (if decimal_value 0 s \<le> maxUint64 then Inr (decimal_value 0 s) else Inl ErrRange)"
  by (simp add: ParseUint_def parse_digits_value maxUint64_def)

lemma not_digit_sign: "\<not> is_digit CHR ''-''" "\<not> is_digit CHR ''+''"
  by (simp_all add: is_digit_def)

lemma Atoi_value:
  assumes "signed_decimal s"
  shows "Atoi s =
     (if - 9223372036854775808 \<le> signed_value s \<and> signed_value s \<le> 9223372036854775807
      then Inr (signed_value s) else Inl ErrRange)"
proof (cases s)
  case Nil
  with assms show ?thesis by simp
next
  case (Cons c cs)
  show ?thesis
  proof (cases "c = CHR ''+'' \<or> c = CHR ''-''")
    case True
    with assms Cons have d: "cs \<noteq> []" "list_all is_digit cs" by auto
    show ?thesis
      using True Cons
      by (auto simp: Atoi_def Let_def ParseUint_value [OF d] signed_bound_def maxUint64_def)
  next
    case False
    with assms Cons have d: "c # cs \<noteq> []" "list_all is_digit (c # cs)" by auto
    show ?thesis
      using False Cons
      by (auto simp: Atoi_def Let_def ParseUint_value [OF d] signed_bound_def maxUint64_def)
  qed
qed

lemma Atoi_out_of_range:
  "signed_decimal s \<Longrightarrow>
   signed_value s < - 9223372036854775808 \<or> 9223372036854775807 < signed_value s \<Longrightarrow>
   Atoi s = Inl ErrRange"
  by (auto simp: Atoi_value)

text \<open>
  Claim C6, as the code has it. Every string that is not an optionally signed run of
  decimal digits, and every such run whose number is below \<open>-2^63\<close> or above
  \<open>2^63 - 1\<close>, fails with \<open>invalid PID format\<close> before any lookup, and that message
  differs from both other messages of \<open>validatePID\<close> whatever they name.
\<close>

theorem validatePID_malformed:
  "\<not> signed_decimal pid
     \<or> signed_value pid < - 9223372036854775808 \<or> 9223372036854775807 < signed_value pid \<Longrightarrow>
     validatePID e pid s = (Some (''invalid PID format: '' @ pid), s)
     \<and> (\<forall>q. ''invalid PID format: '' @ pid \<noteq> ''process with PID '' @ q @ '' does not exist'')
     \<and> (\<forall>q m. ''invalid PID format: '' @ pid \<noteq> ''cannot access process '' @ q @ '': '' @ m)"
proof -
  assume h: "\<not> signed_decimal pid
     \<or> signed_value pid < - 9223372036854775808 \<or> 9223372036854775807 < signed_value pid"
  have "\<exists>err. Atoi pid = Inl err"
  proof (cases "signed_decimal pid")
    case True
    with h have "Atoi pid = Inl ErrRange"
      by (intro Atoi_out_of_range) auto
    then show ?thesis by blast
  next
    case False
    then show ?thesis by (rule Atoi_rejects)
  qed
  then show ?thesis
    by (auto simp: validatePID_def)
qed

theorem validatePID_malformed_witness:
  "validatePID working_env ''abc'' (start proc1) = (Some ''invalid PID format: abc'', start proc1)
   \<and> validatePID working_env ''12x'' (start proc1) = (Some ''invalid PID format: 12x'', start proc1)
   \<and> validatePID working_env ''9223372036854775808'' (start proc1) =
       (Some ''invalid PID format: 9223372036854775808'', start proc1)
   \<and> validatePID working_env ''-9223372036854775809'' (start proc1) =
       (Some ''invalid PID format: -9223372036854775809'', start proc1)
   \<and> validatePID working_env ''99999999999999999999'' (start proc1) =
       (Some ''invalid PID format: 99999999999999999999'', start proc1)"
  using validatePID_malformed
      [of "''abc''" working_env "start proc1"] validatePID_malformed
      [of "''12x''" working_env "start proc1"]
    validatePID_malformed
      [of "''9223372036854775808''" working_env "start proc1"]
    validatePID_malformed
      [of "''-9223372036854775809''" working_env "start proc1"]
    validatePID_malformed
      [of "''99999999999999999999''" working_env "start proc1"]
  by (simp add: is_digit_def digit_val_def)

text \<open>
  Claim C7. A request with \<open>test=true\<close>, a \<open>pid\<close> that is not empty and \<open>seconds\<close> an
  integer in 1..300 is answered with status 200 by both handlers; the body is
  \<open>generateMockProfile\<close> of the \<open>pid\<close> string and the parsed duration, the same bytes
  for both, with content type \<open>application/octet-stream\<close> from \<open>handlePprof\<close> and
  \<open>text/plain\<close> from \<open>handleFolded\<close>. The text holds the \<open>pid\<close> string and the decimal
  duration, and one of its lines is a folded-stack line. No call reaches the operating
  system.
\<close>

theorem test_mode_mock_response:
  assumes "Get (Query r) ''pid'' \<noteq> []"
    and "Atoi (Get (Query r) ''seconds'') = Inr n" and "1 \<le> n" and "n \<le> 300"
    and "Get (Query r) ''test'' = ''true''"
  shows "Code (resp (handlePprof e r (start fs))) = 200
       \<and> Code (resp (handleFolded e r (start fs))) = 200
       \<and> body (resp (handlePprof e r (start fs))) = generateMockProfile (Get (Query r) ''pid'') n
       \<and> body (resp (handleFolded e r (start fs))) = generateMockProfile (Get (Query r) ''pid'') n
       \<and> header (resp (handlePprof e r (start fs))) ''Content-Type'' = Some ''application/octet-stream''
       \<and> header (resp (handleFolded e r (start fs))) ''Content-Type'' = Some ''text/plain''
       \<and> Contains (generateMockProfile (Get (Query r) ''pid'') n) (Get (Query r) ''pid'')
       \<and> Contains (generateMockProfile (Get (Query r) ''pid'') n) (Itoa n)
       \<and> (\<exists>l \<in> set (split_on CHR ''\<newline>'' (generateMockProfile (Get (Query r) ''pid'') n)).
             is_folded_line l)
       \<and> trace (handlePprof e r (start fs)) = []
       \<and> trace (handleFolded e r (start fs)) = []"
proof -
  have line: "\<exists>l \<in> set (split_on CHR ''\<newline>'' (generateMockProfile (Get (Query r) ''pid'') n)).
      is_folded_line l"
    using mock_lines mock_line_folded by blast
  show ?thesis
    using line mock_has_pid mock_has_duration
    by (simp add: handlePprof_def handleFolded_def runProfile_mock [OF assms] state_simps
        start_def new_response_def Write_def WriteHeader_def Header_Set_def Code_def Let_def)
qed

theorem test_mode_mock_response_witness:
  "Code (resp (handlePprof working_env (request [(''pid'', ''1234''), (''seconds'', ''5''), (''test'', ''true'')]) (start proc1))) = 200
   \<and> header (resp (handlePprof working_env (request [(''pid'', ''1234''), (''seconds'', ''5''), (''test'', ''true'')]) (start proc1))) ''Content-Type'' = Some ''application/octet-stream''
   \<and> header (resp (handleFolded working_env (request [(''pid'', ''1234''), (''seconds'', ''5''), (''test'', ''true'')]) (start proc1))) ''Content-Type'' = Some ''text/plain''
   \<and> body (resp (handleFolded working_env (request [(''pid'', ''1234''), (''seconds'', ''5''), (''test'', ''true'')]) (start proc1)))
       = ''# Mock profile data for PID 1234, duration 5 seconds\<newline>'' @ mockStacks
   \<and> body (resp (handlePprof working_env (request [(''pid'', ''1234''), (''seconds'', ''5''), (''test'', ''true'')]) (start proc1)))
       = ''# Mock profile data for PID 1234, duration 5 seconds\<newline>'' @ mockStacks
   \<and> Contains (''# Mock profile data for PID 1234, duration 5 seconds\<newline>'' @ mockStacks) ''1234''
   \<and> Contains (''# Mock profile data for PID 1234, duration 5 seconds\<newline>'' @ mockStacks) ''5''"
  using test_mode_mock_response
      [of "request [(''pid'', ''1234''), (''seconds'', ''5''), (''test'', ''true'')]" 5 working_env proc1]
  by (simp add: request_def Get_def atoi_eval itoa_eval generateMockProfile_def)

text \<open>
  Claim C10. In test mode the \<open>pid\<close> is only required not to be empty: with a valid
  duration the answer is 200, the body holds the \<open>pid\<close> string as given, and
  \<open>validatePID\<close> is never reached (the trace is empty), also for a string such as \<open>abc\<close>
  that \<open>strconv.Atoi\<close> rejects. The duration is checked all the same: a missing,
  non-integer or out-of-range \<open>seconds\<close> gives 400 in test mode too.
\<close>

theorem test_mode_skips_pid_check:
  assumes "Get (Query r) ''test'' = ''true''" and "Get (Query r) ''pid'' \<noteq> []"
  shows "(Atoi (Get (Query r) ''seconds'') = Inr n \<and> 1 \<le> n \<and> n \<le> 300 \<longrightarrow>
            Code (resp (runProfile e r format (start fs))) = 200
            \<and> Contains (body (resp (runProfile e r format (start fs)))) (Get (Query r) ''pid'')
            \<and> trace (runProfile e r format (start fs)) = [])
       \<and> (Get (Query r) ''seconds'' = []
            \<or> (\<exists>err. Atoi (Get (Query r) ''seconds'') = Inl err)
            \<or> (\<exists>k. Atoi (Get (Query r) ''seconds'') = Inr k \<and> (k < 1 \<or> 300 < k)) \<longrightarrow>
            Code (resp (runProfile e r format (start fs))) = 400)"
proof -
  have ok: "Code (resp (runProfile e r format (start fs))) = 200
      \<and> Contains (body (resp (runProfile e r format (start fs)))) (Get (Query r) ''pid'')
      \<and> trace (runProfile e r format (start fs)) = []"
    if "Atoi (Get (Query r) ''seconds'') = Inr n" "1 \<le> n" "n \<le> 300"
    using mock_has_pid [of "Get (Query r) ''pid''" n]
    by (simp add: runProfile_mock [OF assms(2) that assms(1)] state_simps start_def
        new_response_def Write_def WriteHeader_def Header_Set_def Code_def Let_def)
  have bad: "Code (resp (runProfile e r format (start fs))) = 400"
    if "Get (Query r) ''seconds'' = []
        \<or> (\<exists>err. Atoi (Get (Query r) ''seconds'') = Inl err)
        \<or> (\<exists>k. Atoi (Get (Query r) ''seconds'') = Inr k \<and> (k < 1 \<or> 300 < k))"
    using that
    by (auto simp: runProfile_def Let_def state_simps start_def new_response_def Code_http_Error
        StatusBadRequest_def split: sum.splits)
  show ?thesis using ok bad by blast
qed

theorem test_mode_skips_pid_check_witness:
  "Atoi ''abc'' = Inl ErrSyntax
   \<and> Code (resp (runProfile working_env (request [(''pid'', ''abc''), (''seconds'', ''5''), (''test'', ''true'')]) ''pprof'' (start proc1))) = 200
   \<and> Contains (body (resp (runProfile working_env (request [(''pid'', ''abc''), (''seconds'', ''5''), (''test'', ''true'')]) ''pprof'' (start proc1)))) ''abc''
   \<and> trace (runProfile working_env (request [(''pid'', ''abc''), (''seconds'', ''5''), (''test'', ''true'')]) ''pprof'' (start proc1)) = []
   \<and> Code (resp (runProfile working_env (request [(''pid'', ''abc''), (''seconds'', ''301''), (''test'', ''true'')]) ''pprof'' (start proc1))) = 400"
  using test_mode_skips_pid_check
      [of "request [(''pid'', ''abc''), (''seconds'', ''5''), (''test'', ''true'')]" 5 working_env "''pprof''" proc1]
    test_mode_skips_pid_check
      [of "request [(''pid'', ''abc''), (''seconds'', ''301''), (''test'', ''true'')]" 5 working_env "''pprof''" proc1]
  by (simp add: request_def Get_def atoi_eval)


text \<open>
  Claim C8. A request to \<open>handleFolded\<close> without \<open>test=true\<close>, with a \<open>pid\<close> that
  \<open>validatePID\<close> accepts and a duration in 1..300, runs exactly one command,
  \<open>sudo profile-bpfcc -p pid -F 999 -f duration\<close>. When \<open>Run\<close> reports an error the
  answer is 500 and the body is \<open>Profiler failed:\<close> with the error and the stderr as
  captured, whatever the stderr says; when it reports none, the content type is
  \<open>text/plain\<close> and the body is the captured standard output, byte for byte.
\<close>

theorem folded_pipeline_single_run:
  assumes "Get (Query r) ''pid'' = pid" and "pid \<noteq> []"
    and "Atoi (Get (Query r) ''seconds'') = Inr n" and "1 \<le> n" and "n \<le> 300"
    and "Get (Query r) ''test'' \<noteq> ''true''"
    and "validatePID e pid (start fs) = (None, s1)"
    and "spawn e (''sudo'' # bccArgs pid n) (files s1) = (p, fs')"
  shows "filter is_Run (trace (handleFolded e r (start fs))) = [Run (''sudo'' # bccArgs pid n)]
       \<and> (\<forall>err. run_error (exit p) = Some err \<longrightarrow>
             Code (resp (handleFolded e r (start fs))) = 500
             \<and> body (resp (handleFolded e r (start fs))) =
                 ''Profiler failed: '' @ err @ ''\<newline>Stderr: '' @ errout p @ ''\<newline>'')
       \<and> (run_error (exit p) = None \<longrightarrow>
             Code (resp (handleFolded e r (start fs))) = 200
             \<and> header (resp (handleFolded e r (start fs))) ''Content-Type'' = Some ''text/plain''
             \<and> body (resp (handleFolded e r (start fs))) = out p)"
proof -
  have s1: "s1 = log_call (Stat (''/proc/'' @ pid)) (start fs)"
    using validatePID_ok [OF assms(7)] .
  show ?thesis
    unfolding runProfile_folded [OF assms] s1
    by (cases "run_error (exit p)")
      (simp_all add: state_simps start_def http_eval Let_def)
qed

theorem folded_pipeline_single_run_witness:
  "filter is_Run (trace (handleFolded working_env (request [(''pid'', ''1''), (''seconds'', ''5'')]) (start proc1)))
     = [Run [''sudo'', ''profile-bpfcc'', ''-p'', ''1'', ''-F'', ''999'', ''-f'', ''5'']]
   \<and> Code (resp (handleFolded working_env (request [(''pid'', ''1''), (''seconds'', ''5'')]) (start proc1))) = 200
   \<and> header (resp (handleFolded working_env (request [(''pid'', ''1''), (''seconds'', ''5'')]) (start proc1))) ''Content-Type'' = Some ''text/plain''
   \<and> body (resp (handleFolded working_env (request [(''pid'', ''1''), (''seconds'', ''5'')]) (start proc1))) = ''main;work 7\<newline>''
   \<and> Code (resp (handleFolded (failing_env ''boom'') (request [(''pid'', ''1''), (''seconds'', ''5'')]) (start proc1))) = 500
   \<and> body (resp (handleFolded (failing_env ''boom'') (request [(''pid'', ''1''), (''seconds'', ''5'')]) (start proc1))) =
       ''Profiler failed: exit status 1\<newline>Stderr: boom\<newline>''"
  using folded_pipeline_single_run
      [where r = "request [(''pid'', ''1''), (''seconds'', ''5'')]" and pid = "''1''" and n = 5
        and e = working_env and fs = proc1
        and ?s1.0 = "log_call (Stat ''/proc/1'') (start proc1)"
        and p = "exited 0 ''main;work 7\<newline>'' []" and fs' = proc1]
    folded_pipeline_single_run
      [where r = "request [(''pid'', ''1''), (''seconds'', ''5'')]" and pid = "''1''" and n = 5
        and e = "failing_env ''boom''" and fs = proc1
        and ?s1.0 = "log_call (Stat ''/proc/1'') (start proc1)"
        and p = "exited 1 [] ''boom''" and fs' = proc1]
  by (simp add: os_eval validatePID_def bccArgs_def sample_eval atoi_eval itoa_eval)

text \<open>
  Claim C9. On the same requests \<open>handleFolded\<close> makes two calls and no other: the
  \<open>/proc\<close> lookup of \<open>validatePID\<close> and the profiler command. It looks up no tool and
  creates no directory, and the files are what the child process left. A profiler that
  cannot be run therefore shows only as the error of \<open>Run\<close>: status 500 and a body that
  begins with \<open>Profiler failed:\<close>, not with the \<open>Required tools not available\<close> of
  \<open>runPerfProfile\<close>.
\<close>

theorem folded_pipeline_no_precheck:
  assumes "Get (Query r) ''pid'' = pid" and "pid \<noteq> []"
    and "Atoi (Get (Query r) ''seconds'') = Inr n" and "1 \<le> n" and "n \<le> 300"
    and "Get (Query r) ''test'' \<noteq> ''true''"
    and "validatePID e pid (start fs) = (None, s1)"
    and "spawn e (''sudo'' # bccArgs pid n) (files s1) = (p, fs')"
  shows "trace (handleFolded e r (start fs)) = [Stat (''/proc/'' @ pid), Run (''sudo'' # bccArgs pid n)]
       \<and> (\<forall>tool. LookPath tool \<notin> set (trace (handleFolded e r (start fs))))
       \<and> (\<forall>dir pat. MkdirTemp dir pat \<notin> set (trace (handleFolded e r (start fs))))
       \<and> files (handleFolded e r (start fs)) = fs'
       \<and> (\<forall>err. run_error (exit p) = Some err \<longrightarrow>
             Code (resp (handleFolded e r (start fs))) = 500
             \<and> prefix ''Profiler failed: '' (body (resp (handleFolded e r (start fs))))
             \<and> \<not> prefix ''Required tools not available'' (body (resp (handleFolded e r (start fs)))))"
proof -
  have s1: "s1 = log_call (Stat (''/proc/'' @ pid)) (start fs)"
    using validatePID_ok [OF assms(7)] .
  show ?thesis
    unfolding runProfile_folded [OF assms] s1
    by (cases "run_error (exit p)")
      (simp_all add: state_simps start_def new_response_def
        Code_http_Error body_http_Error StatusInternalServerError_def)
qed

theorem folded_pipeline_no_precheck_witness:
  "trace (handleFolded (failing_env ''sudo: profile-bpfcc: command not found'')
       (request [(''pid'', ''1''), (''seconds'', ''5'')]) (start proc1)) =
     [Stat ''/proc/1'', Run [''sudo'', ''profile-bpfcc'', ''-p'', ''1'', ''-F'', ''999'', ''-f'', ''5'']]
   \<and> files (handleFolded (failing_env ''sudo: profile-bpfcc: command not found'')
       (request [(''pid'', ''1''), (''seconds'', ''5'')]) (start proc1)) = proc1
   \<and> Code (resp (handleFolded (failing_env ''sudo: profile-bpfcc: command not found'')
       (request [(''pid'', ''1''), (''seconds'', ''5'')]) (start proc1))) = 500
   \<and> prefix ''Profiler failed: '' (body (resp (handleFolded (failing_env ''sudo: profile-bpfcc: command not found'')
       (request [(''pid'', ''1''), (''seconds'', ''5'')]) (start proc1))))"
  using folded_pipeline_no_precheck
      [where r = "request [(''pid'', ''1''), (''seconds'', ''5'')]" and pid = "''1''" and n = 5
        and e = "failing_env ''sudo: profile-bpfcc: command not found''" and fs = proc1
        and ?s1.0 = "log_call (Stat ''/proc/1'') (start proc1)"
        and p = "exited 1 [] ''sudo: profile-bpfcc: command not found''" and fs' = proc1]
  by (simp add: os_eval validatePID_def bccArgs_def sample_eval atoi_eval itoa_eval)

end
